theory Spec2Isabelle
  imports Complex_Main "HOL-Library.Word"
begin

section \<open>Data model of \<^verbatim>\<open>fink_client/consumer.py\<close>\<close>

text \<open>
  Python \<^verbatim>\<open>bytes\<close> is a list of 8-bit words, \<^verbatim>\<open>str\<close> a character list. The option
  mapping handed to the consumer and the configuration handed to the broker client are
  dictionaries from strings to strings.
\<close>

type_synonym bytes = "8 word list"
type_synonym pydict = "string \<rightharpoonup> string"

text \<open>
  Every exception that can leave one of the module's functions. \<open>KeyError\<close> comes from
  a dictionary subscript, \<open>OSError\<close> from \<^verbatim>\<open>open\<close>, \<open>AlertError\<close> is the module's own
  class; the remaining ones are raised inside the libraries the module calls.
\<close>

datatype error =
    KeyError string
  | OSError string
  | AlertError string
  | JSONDecodeError string
  | SchemaParseException string
  | AvroReadError string
  | KafkaException string

section \<open>\<^verbatim>\<open>_get_kafka_config\<close>\<close>

definition default_config :: pydict where
  "default_config = [''auto.offset.reset'' \<mapsto> ''earliest'']"

definition fink_servers :: "string list" where
  "fink_servers = [''localhost:9093'', ''localhost:9094'', ''localhost:9095'']"

text \<open>\<^verbatim>\<open>sep.join(xs)\<close>\<close>

fun join :: "string \<Rightarrow> string list \<Rightarrow> string" where
  "join sep [] = []"
| "join sep [x] = x"
| "join sep (x # y # ys) = x @ sep @ join sep (y # ys)"

text \<open>
  The function in source order: the SASL block, then the subscript
  \<^verbatim>\<open>config["group_id"]\<close> (a \<^verbatim>\<open>KeyError\<close> when the key is missing), then
  \<^verbatim>\<open>kafka_config.update(default_config)\<close>, then the server list.
  \<^verbatim>\<open>"{}".format(s)\<close> of a string is the string.
\<close>

definition get_kafka_config :: "pydict \<Rightarrow> error + pydict" where
  "get_kafka_config config =
     (let kafka_config0 = (Map.empty :: pydict);
          kafka_config1 =
            (case (config ''username'', config ''password'') of
               (Some username, Some password) \<Rightarrow>
                 kafka_config0
                   (''security.protocol'' \<mapsto> ''sasl_plaintext'',
                    ''sasl.mechanism'' \<mapsto> ''SCRAM-SHA-512'',
                    ''sasl.username'' \<mapsto> username,
                    ''sasl.password'' \<mapsto> password)
             | _ \<Rightarrow> kafka_config0)
      in case config ''group_id'' of
           None \<Rightarrow> Inl (KeyError ''group_id'')
         | Some group_id \<Rightarrow>
             (let kafka_config2 = kafka_config1(''group.id'' \<mapsto> group_id);
                  kafka_config3 = kafka_config2 ++ default_config
              in case config ''bootstrap.servers'' of
                   Some servers \<Rightarrow> Inr (kafka_config3(''bootstrap.servers'' \<mapsto> servers))
                 | None \<Rightarrow>
                     Inr (kafka_config3(''bootstrap.servers'' \<mapsto> join '','' fink_servers))))"

section \<open>The outside world of schema resolution\<close>

text \<open>
  \<^verbatim>\<open>requests.get\<close> either raises a subclass of \<^verbatim>\<open>RequestException\<close> (a timeout, a failed
  connection) or returns a response object. It returns a response for every status code:
  only \<^verbatim>\<open>Response.raise_for_status()\<close> turns a 4xx or 5xx answer into an exception, and
  the module never calls it.
\<close>

datatype request_exception = Timeout | ConnectionError

record response =
  status_code :: nat
  resp_text :: string

datatype http_outcome = Raises request_exception | Returns response

text \<open>
  The calls the module makes to the outside, in the order it makes them. An event is
  logged when the call is made, whatever its outcome.
\<close>

datatype event =
    Print string
  | HttpGet string nat
  | FileWrite string string
  | FileRead string
  | ConsumerNew pydict
  | Subscribe "string list"

record world =
  files :: "string \<rightharpoonup> string"
  writable :: "string \<Rightarrow> bool"
  remote :: "string \<Rightarrow> http_outcome"
  trace :: "event list"

definition emit :: "event \<Rightarrow> world \<Rightarrow> world" where
  "emit ev w = w\<lparr>trace := trace w @ [ev]\<rparr>"

text \<open>\<^verbatim>\<open>print(s)\<close>\<close>

definition print :: "string \<Rightarrow> world \<Rightarrow> world" where
  "print s w = emit (Print s) w"

text \<open>\<^verbatim>\<open>requests.get(url, timeout=t)\<close>\<close>

definition requests_get :: "string \<Rightarrow> nat \<Rightarrow> world \<Rightarrow> (request_exception + response) \<times> world" where
  "requests_get url t w =
     (case remote w url of
        Raises exc \<Rightarrow> (Inl exc, emit (HttpGet url t) w)
      | Returns r \<Rightarrow> (Inr r, emit (HttpGet url t) w))"

text \<open>\<^verbatim>\<open>with open(path, "w") as f: f.write(s)\<close>\<close>

definition write_file :: "string \<Rightarrow> string \<Rightarrow> world \<Rightarrow> (error + unit) \<times> world" where
  "write_file path s w =
     (if writable w path
      then (Inr (), (emit (FileWrite path s) w)\<lparr>files := (files w)(path \<mapsto> s)\<rparr>)
      else (Inl (OSError path), emit (FileWrite path s) w))"

text \<open>\<^verbatim>\<open>with open(path) as f: f.read()\<close>\<close>

definition read_file :: "string \<Rightarrow> world \<Rightarrow> (error + string) \<times> world" where
  "read_file path w =
     (case files w path of
        None \<Rightarrow> (Inl (OSError path), emit (FileRead path) w)
      | Some s \<Rightarrow> (Inr s, emit (FileRead path) w))"

section \<open>The libraries and the install location\<close>

text \<open>
  The broker message as the client library hands it over. \<open>msg_id\<close> is the identity of
  the Python object (its address), which is what the text of a bound method shows.
\<close>

datatype kafka_error = KafkaError int string

record message =
  msg_error :: "kafka_error option"
  msg_topic :: string
  msg_partition :: int
  msg_offset :: int
  msg_key :: "bytes option"
  msg_value :: bytes
  msg_id :: nat

text \<open>
  What the module takes from outside its own file: the directory above the one that
  holds the module (\<^verbatim>\<open>os.path.dirname(__file__)\<close> followed by \<^verbatim>\<open>..\<close>, made absolute),
  \<^verbatim>\<open>json.load\<close>, \<^verbatim>\<open>fastavro.parse_schema\<close>, \<^verbatim>\<open>fastavro.schemaless_reader\<close> (given the
  bytes from the stream's current position on), and the methods of
  \<^verbatim>\<open>confluent_kafka.Consumer\<close> acting on the client's state \<open>'b\<close>.
\<close>

record ('j, 's, 'r, 'b) env =
  package_root :: string
  json_load :: "string \<Rightarrow> error + 'j"
  parse_schema :: "'j \<Rightarrow> error + 's"
  schemaless_reader :: "bytes \<Rightarrow> 's \<Rightarrow> error + 'r"
  client_new :: "pydict \<Rightarrow> error + 'b"
  client_subscribe :: "string list \<Rightarrow> 'b \<Rightarrow> error + 'b"
  client_poll :: "real \<Rightarrow> 'b \<Rightarrow> (error + message option) \<times> 'b"
  client_consume :: "int \<Rightarrow> real \<Rightarrow> 'b \<Rightarrow> (error + message list) \<times> 'b"
  client_close :: "'b \<Rightarrow> 'b"

section \<open>\<^verbatim>\<open>_get_alert_schema\<close>\<close>

definition schema_url :: string where
  "schema_url =
     ''https://raw.github.com/astrolabsoftware/fink-broker/master/schemas/distribution_schema.avsc''"

text \<open>\<^verbatim>\<open>s.split(sep)\<close> for a one-character separator: never the empty list.\<close>

fun split_str :: "char \<Rightarrow> string \<Rightarrow> string list" where
  "split_str sep [] = [[]]"
| "split_str sep (c # cs) =
     (if c = sep then [] # split_str sep cs
      else (case split_str sep cs of
              [] \<Rightarrow> [[c]]
            | x # xs \<Rightarrow> (c # x) # xs))"

text \<open>
  \<^verbatim>\<open>os.path.abspath(os.path.join(os.path.dirname(__file__), '../schemas/NAME'))\<close>
\<close>

definition schemas_file :: "('j, 's, 'r, 'b) env \<Rightarrow> string \<Rightarrow> string" where
  "schemas_file env name = package_root env @ ''/schemas/'' @ name"

definition fallback_notice :: "string \<Rightarrow> string" where
  "fallback_notice schema_path =
     ''Could not obtain schema from fink servers'' @ [CHR 0x0A] @
     ''Using default schema available at: '' @ schema_path"

text \<open>
  The \<^verbatim>\<open>if schema_path is None\<close> block: its result is the path to load, or the
  exception that leaves the block. Only \<^verbatim>\<open>RequestException\<close> is caught; the
  \<^verbatim>\<open>OSError\<close> of a failed write is not.
\<close>

definition choose_schema_path ::
  "('j, 's, 'r, 'b) env \<Rightarrow> string option \<Rightarrow> world \<Rightarrow> (error + string) \<times> world" where
  "choose_schema_path env schema_path w =
     (case schema_path of
        Some p \<Rightarrow> (Inr p, w)
      | None \<Rightarrow>
          (let w1 = print ''Getting schema from fink servers...'' w;
               filename = last (split_str CHR ''/'' schema_url)
           in case requests_get schema_url 1 w1 of
                (Inr r, w2) \<Rightarrow>
                  (let p = schemas_file env filename
                   in case write_file p (resp_text r) w2 of
                        (Inl e, w3) \<Rightarrow> (Inl e, w3)
                      | (Inr _, w3) \<Rightarrow> (Inr p, w3))
              | (Inl exc, w2) \<Rightarrow>
                  (let p = schemas_file env ''fink_alert_schema.avsc''
                   in (Inr p, print (fallback_notice p) w2))))"

definition get_alert_schema ::
  "('j, 's, 'r, 'b) env \<Rightarrow> string option \<Rightarrow> world \<Rightarrow> (error + 's) \<times> world" where
  "get_alert_schema env schema_path w =
     (case choose_schema_path env schema_path w of
        (Inl e, w1) \<Rightarrow> (Inl e, w1)
      | (Inr p, w1) \<Rightarrow>
          (case read_file p w1 of
             (Inl e, w2) \<Rightarrow> (Inl e, w2)
           | (Inr content, w2) \<Rightarrow>
               (case json_load env content of
                  Inl e \<Rightarrow> (Inl e, w2)
                | Inr schema \<Rightarrow> (parse_schema env schema, w2))))"

section \<open>\<^verbatim>\<open>_decode_avro_alert\<close>\<close>

text \<open>An \<^verbatim>\<open>io.BytesIO\<close> stream: its content and its position.\<close>

record bytesio =
  buffer :: bytes
  pos :: nat

definition BytesIO :: "bytes \<Rightarrow> bytesio" where
  "BytesIO b = \<lparr>buffer = b, pos = 0\<rparr>"

definition seek :: "nat \<Rightarrow> bytesio \<Rightarrow> bytesio" where
  "seek n s = s\<lparr>pos := n\<rparr>"

text \<open>What a reader sees: the bytes from the current position on.\<close>

definition remaining :: "bytesio \<Rightarrow> bytes" where
  "remaining s = drop (pos s) (buffer s)"

definition decode_avro_alert ::
  "('j, 's, 'r, 'b) env \<Rightarrow> bytesio \<Rightarrow> 's \<Rightarrow> error + 'r" where
  "decode_avro_alert env avro_alert schema =
     schemaless_reader env (remaining (seek 0 avro_alert)) schema"

section \<open>\<^verbatim>\<open>AlertConsumer\<close>\<close>

record ('s, 'b) alert_consumer =
  self_topics :: "string list"
  self_kafka_config :: pydict
  self_parsed_schema :: 's
  self_consumer :: 'b

definition init ::
  "('j, 's, 'r, 'b) env \<Rightarrow> string list \<Rightarrow> pydict \<Rightarrow> string option \<Rightarrow> world
     \<Rightarrow> (error + ('s, 'b) alert_consumer) \<times> world" where
  "init env topics config schema w =
     (case get_kafka_config config of
        Inl e \<Rightarrow> (Inl e, w)
      | Inr kafka_config \<Rightarrow>
          (case get_alert_schema env schema w of
             (Inl e, w1) \<Rightarrow> (Inl e, w1)
           | (Inr parsed, w1) \<Rightarrow>
               (case client_new env kafka_config of
                  Inl e \<Rightarrow> (Inl e, emit (ConsumerNew kafka_config) w1)
                | Inr c \<Rightarrow>
                    (case client_subscribe env topics c of
                       Inl e \<Rightarrow>
                         (Inl e, emit (Subscribe topics) (emit (ConsumerNew kafka_config) w1))
                     | Inr c' \<Rightarrow>
                         (Inr \<lparr>self_topics = topics, self_kafka_config = kafka_config,
                               self_parsed_schema = parsed, self_consumer = c'\<rparr>,
                          emit (Subscribe topics) (emit (ConsumerNew kafka_config) w1))))))"

subsection \<open>Text of Python values\<close>

definition digit_char :: "nat \<Rightarrow> char" where
  "digit_char d = ''0123456789abcdef'' ! d"

text \<open>\<^verbatim>\<open>str(n)\<close> of a non-negative integer, and its hexadecimal digits.\<close>

function str_nat :: "nat \<Rightarrow> string" where
  "str_nat n = (if n < 10 then [digit_char n] else str_nat (n div 10) @ [digit_char (n mod 10)])"
  by pat_completeness auto
termination
  by (relation "measure (\<lambda>n. n)") auto

function hex_nat :: "nat \<Rightarrow> string" where
  "hex_nat n = (if n < 16 then [digit_char n] else hex_nat (n div 16) @ [digit_char (n mod 16)])"
  by pat_completeness auto
termination
  by (relation "measure (\<lambda>n. n)") auto

definition str_int :: "int \<Rightarrow> string" where
  "str_int i = (if i < 0 then CHR ''-'' # str_nat (nat (- i)) else str_nat (nat i))"

text \<open>
  \<^verbatim>\<open>str(msg.NAME)\<close> where the method is named and not called: the text of a bound
  built-in method, which shows the method's name and the object's address only.
\<close>

definition str_bound_method :: "string \<Rightarrow> message \<Rightarrow> string" where
  "str_bound_method name msg =
     ''<built-in method '' @ name @ '' of cimpl.Message object at 0x'' @
     hex_nat (msg_id msg) @ ''>''"

text \<open>
  The text built in \<^verbatim>\<open>poll\<close>: the format arguments are \<^verbatim>\<open>msg.error\<close> (not called),
  \<^verbatim>\<open>msg.topic()\<close>, \<^verbatim>\<open>msg.partition()\<close>, \<^verbatim>\<open>msg.offset()\<close> and \<^verbatim>\<open>str(msg.key)\<close>
  (not called).
\<close>

definition error_message :: "message \<Rightarrow> string" where
  "error_message msg =
     ''Error: '' @ str_bound_method ''error'' msg @ [CHR 0x0A] @
     ''topic: '' @ msg_topic msg @ ''['' @ str_int (msg_partition msg) @
     ''] at offset: '' @ str_int (msg_offset msg) @
     '' with key: '' @ str_bound_method ''key'' msg"

subsection \<open>\<^verbatim>\<open>poll\<close>, \<^verbatim>\<open>consume\<close>, \<^verbatim>\<open>close\<close>\<close>

text \<open>
  \<^verbatim>\<open>if msg.error():\<close> tests the truth of \<^verbatim>\<open>None\<close> or of a \<^verbatim>\<open>KafkaError\<close> object; the
  latter defines neither \<^verbatim>\<open>__bool__\<close> nor \<^verbatim>\<open>__len__\<close>, so it is true.
  The methods return the instance as well: only its client state changes.
\<close>

definition poll ::
  "('j, 's, 'r, 'b) env \<Rightarrow> ('s, 'b) alert_consumer \<Rightarrow> real
     \<Rightarrow> (error + string option \<times> 'r option) \<times> ('s, 'b) alert_consumer" where
  "poll env self timeout =
     (case client_poll env timeout (self_consumer self) of
        (Inl e, c) \<Rightarrow> (Inl e, self\<lparr>self_consumer := c\<rparr>)
      | (Inr None, c) \<Rightarrow> (Inr (None, None), self\<lparr>self_consumer := c\<rparr>)
      | (Inr (Some msg), c) \<Rightarrow>
          (case msg_error msg of
             Some err \<Rightarrow> (Inl (AlertError (error_message msg)), self\<lparr>self_consumer := c\<rparr>)
           | None \<Rightarrow>
               (case decode_avro_alert env (BytesIO (msg_value msg)) (self_parsed_schema self) of
                  Inl e \<Rightarrow> (Inl e, self\<lparr>self_consumer := c\<rparr>)
                | Inr alert \<Rightarrow>
                    (Inr (Some (msg_topic msg), Some alert), self\<lparr>self_consumer := c\<rparr>))))"

text \<open>The \<^verbatim>\<open>for msg in msg_list\<close> loop of \<^verbatim>\<open>consume\<close>, with its accumulator \<open>alerts\<close>.\<close>

fun consume_loop ::
  "('j, 's, 'r, 'b) env \<Rightarrow> 's \<Rightarrow> message list \<Rightarrow> (string \<times> 'r) list
     \<Rightarrow> error + (string \<times> 'r) list" where
  "consume_loop env schema [] alerts = Inr alerts"
| "consume_loop env schema (msg # msg_list) alerts =
     (case decode_avro_alert env (BytesIO (msg_value msg)) schema of
        Inl e \<Rightarrow> Inl e
      | Inr alert \<Rightarrow> consume_loop env schema msg_list (alerts @ [(msg_topic msg, alert)]))"

definition consume ::
  "('j, 's, 'r, 'b) env \<Rightarrow> ('s, 'b) alert_consumer \<Rightarrow> int \<Rightarrow> real
     \<Rightarrow> (error + (string \<times> 'r) list) \<times> ('s, 'b) alert_consumer" where
  "consume env self num_alerts timeout =
     (case client_consume env num_alerts timeout (self_consumer self) of
        (Inl e, c) \<Rightarrow> (Inl e, self\<lparr>self_consumer := c\<rparr>)
      | (Inr msg_list, c) \<Rightarrow>
          (consume_loop env (self_parsed_schema self) msg_list [], self\<lparr>self_consumer := c\<rparr>))"

definition close :: "('j, 's, 'r, 'b) env \<Rightarrow> ('s, 'b) alert_consumer \<Rightarrow> ('s, 'b) alert_consumer" where
  "close env self = self\<lparr>self_consumer := client_close env (self_consumer self)\<rparr>"

subsection \<open>The lifetime of an instance\<close>

text \<open>
  What can happen between construction and the end of an instance's life: the caller
  invokes one of the three methods, or the outside changes (the remote schema source
  answers differently, a file is rewritten by somebody else). The methods take no
  \<open>world\<close>: their bodies make no file and no HTTP call.
\<close>

datatype happening =
    CallPoll real
  | CallConsume int real
  | CallClose
  | RemoteChanges "string \<Rightarrow> http_outcome"
  | FileChanges string string

fun happen ::
  "('j, 's, 'r, 'b) env \<Rightarrow> happening \<Rightarrow> ('s, 'b) alert_consumer \<times> world
     \<Rightarrow> ('s, 'b) alert_consumer \<times> world" where
  "happen env (CallPoll t) (self, w) = (snd (poll env self t), w)"
| "happen env (CallConsume n t) (self, w) = (snd (consume env self n t), w)"
| "happen env CallClose (self, w) = (close env self, w)"
| "happen env (RemoteChanges f) (self, w) = (self, w\<lparr>remote := f\<rparr>)"
| "happen env (FileChanges path s) (self, w) = (self, w\<lparr>files := (files w)(path \<mapsto> s)\<rparr>)"

fun lifetime ::
  "('j, 's, 'r, 'b) env \<Rightarrow> happening list \<Rightarrow> ('s, 'b) alert_consumer \<times> world
     \<Rightarrow> ('s, 'b) alert_consumer \<times> world" where
  "lifetime env [] sw = sw"
| "lifetime env (h # hs) sw = lifetime env hs (happen env h sw)"

text \<open>The number of times a schema file was opened for reading.\<close>

fun is_FileRead :: "event \<Rightarrow> bool" where
  "is_FileRead (FileRead p) = True"
| "is_FileRead ev = False"

fun is_HttpGet :: "event \<Rightarrow> bool" where
  "is_HttpGet (HttpGet url t) = True"
| "is_HttpGet ev = False"

definition schema_loads :: "world \<Rightarrow> nat" where
  "schema_loads w = length (filter is_FileRead (trace w))"

definition schema_fetches :: "world \<Rightarrow> nat" where
  "schema_fetches w = length (filter is_HttpGet (trace w))"


section \<open>The schema codec\<close>

text \<open>
  Modelled from the spec: the schema codec, that is the writer and the reader of the
  \<^verbatim>\<open>fastavro\<close> package, which the module imports and the repository does not contain.
  The spec describes a schema as the field names and types of a record, and the layout
  as schema-driven: no embedded schema, no header, no field tags, no length prefix, the
  fields in the schema's order. A schema here is null, a long, a record of named fields,
  or a union of alternatives (an optional field is a union with null).
\<close>

datatype avro_schema =
    SNull
  | SLong
  | SRecord "(string \<times> avro_schema) list"
  | SUnion "avro_schema list"

text \<open>
  Modelled from the spec: a decoded record, a mapping from field names to values. A
  Python dictionary equals another whatever the order of insertion, so a record is
  written once, with its fields in the schema's order. Python integers are unbounded and
  so are the longs here.
\<close>

datatype avro_value =
    VNull
  | VLong int
  | VRecord "(string \<times> avro_value) list"

text \<open>
  Modelled from the spec: a value has the type a schema describes. A record has exactly
  the schema's fields, each of its field's type; a value has a union's type when it has
  the type of one of the alternatives.
\<close>

fun conforms :: "avro_schema \<Rightarrow> avro_value \<Rightarrow> bool"
  and conforms_fields ::
    "(string \<times> avro_schema) list \<Rightarrow> (string \<times> avro_value) list \<Rightarrow> bool"
  and conforms_any :: "avro_schema list \<Rightarrow> avro_value \<Rightarrow> bool" where
  "conforms SNull v = (case v of VNull \<Rightarrow> True | _ \<Rightarrow> False)"
| "conforms SLong v = (case v of VLong n \<Rightarrow> True | _ \<Rightarrow> False)"
| "conforms (SRecord fs) v = (case v of VRecord kvs \<Rightarrow> conforms_fields fs kvs | _ \<Rightarrow> False)"
| "conforms (SUnion ss) v = conforms_any ss v"
| "conforms_fields [] kvs = (case kvs of [] \<Rightarrow> True | _ \<Rightarrow> False)"
| "conforms_fields (f # fs) kvs =
     (case kvs of
        [] \<Rightarrow> False
      | kv # kvs' \<Rightarrow>
          (if fst kv = fst f
           then (if conforms (snd f) (snd kv) then conforms_fields fs kvs' else False)
           else False))"
| "conforms_any [] v = False"
| "conforms_any (s # ss) v = (if conforms s v then True else conforms_any ss v)"

text \<open>
  Modelled from the spec: the binary form of a long, which carries no length: the sign
  is folded into the low bit, and the number is cut into groups of seven bits, lowest
  first, each byte but the last with its high bit set.
\<close>

definition zigzag :: "int \<Rightarrow> nat" where
  "zigzag n = (if 0 \<le> n then nat (2 * n) else nat (- 2 * n - 1))"

definition unzigzag :: "nat \<Rightarrow> int" where
  "unzigzag u = (if even u then int (u div 2) else - int ((u + 1) div 2))"

function varint :: "nat \<Rightarrow> bytes" where
  "varint u = (if u < 128 then [of_nat u] else of_nat (128 + u mod 128) # varint (u div 128))"
  by pat_completeness auto
termination
  by (relation "measure (\<lambda>u. u)") auto

declare varint.simps [simp del]

fun read_varint :: "bytes \<Rightarrow> (nat \<times> bytes) option" where
  "read_varint [] = None"
| "read_varint (b # bs) =
     (if unat b < 128 then Some (unat b, bs)
      else (case read_varint bs of
              None \<Rightarrow> None
            | Some (u, rest) \<Rightarrow> Some (unat b - 128 + 128 * u, rest)))"

text \<open>
  Modelled from the spec: the writer. Null takes no byte; a record is its fields'
  encodings one after the other in the schema's order, with nothing between or around
  them; a union is the position of the first alternative that takes the value, then the
  value under that alternative. \<open>None\<close> is the writer's refusal of a value that is not of
  the schema's type.
\<close>

fun avro_write :: "avro_schema \<Rightarrow> avro_value \<Rightarrow> bytes option"
  and write_fields ::
    "(string \<times> avro_schema) list \<Rightarrow> (string \<times> avro_value) list \<Rightarrow> bytes option"
  and write_union :: "avro_schema list \<Rightarrow> nat \<Rightarrow> avro_value \<Rightarrow> bytes option" where
  "avro_write SNull v = (case v of VNull \<Rightarrow> Some [] | _ \<Rightarrow> None)"
| "avro_write SLong v = (case v of VLong n \<Rightarrow> Some (varint (zigzag n)) | _ \<Rightarrow> None)"
| "avro_write (SRecord fs) v = (case v of VRecord kvs \<Rightarrow> write_fields fs kvs | _ \<Rightarrow> None)"
| "avro_write (SUnion ss) v = write_union ss 0 v"
| "write_fields [] kvs = (case kvs of [] \<Rightarrow> Some [] | _ \<Rightarrow> None)"
| "write_fields (f # fs) kvs =
     (case kvs of
        [] \<Rightarrow> None
      | kv # kvs' \<Rightarrow>
          (if fst kv = fst f
           then (case avro_write (snd f) (snd kv) of
                   None \<Rightarrow> None
                 | Some b \<Rightarrow>
                     (case write_fields fs kvs' of
                        None \<Rightarrow> None
                      | Some bs \<Rightarrow> Some (b @ bs)))
           else None))"
| "write_union [] i v = None"
| "write_union (s # ss) i v =
     (case avro_write s v of
        Some b \<Rightarrow> Some (varint (zigzag (int i)) @ b)
      | None \<Rightarrow> write_union ss (Suc i) v)"

text \<open>
  Modelled from the spec: the reader, which knows the field order and types from the
  schema alone and returns the value with the bytes it did not use. \<open>None\<close> is the decode
  error of a truncated or structurally invalid buffer.
\<close>

fun avro_read :: "avro_schema \<Rightarrow> bytes \<Rightarrow> (avro_value \<times> bytes) option"
  and read_fields ::
    "(string \<times> avro_schema) list \<Rightarrow> bytes \<Rightarrow> ((string \<times> avro_value) list \<times> bytes) option"
  and read_union :: "avro_schema list \<Rightarrow> nat \<Rightarrow> bytes \<Rightarrow> (avro_value \<times> bytes) option" where
  "avro_read SNull bs = Some (VNull, bs)"
| "avro_read SLong bs =
     (case read_varint bs of
        None \<Rightarrow> None
      | Some (u, rest) \<Rightarrow> Some (VLong (unzigzag u), rest))"
| "avro_read (SRecord fs) bs =
     (case read_fields fs bs of
        None \<Rightarrow> None
      | Some (kvs, rest) \<Rightarrow> Some (VRecord kvs, rest))"
| "avro_read (SUnion ss) bs =
     (case read_varint bs of
        None \<Rightarrow> None
      | Some (u, rest) \<Rightarrow>
          (if 0 \<le> unzigzag u then read_union ss (nat (unzigzag u)) rest else None))"
| "read_fields [] bs = Some ([], bs)"
| "read_fields (f # fs) bs =
     (case avro_read (snd f) bs of
        None \<Rightarrow> None
      | Some (v, rest) \<Rightarrow>
          (case read_fields fs rest of
             None \<Rightarrow> None
           | Some (kvs, rest') \<Rightarrow> Some ((fst f, v) # kvs, rest')))"
| "read_union [] i bs = None"
| "read_union (s # ss) i bs =
     (case i of 0 \<Rightarrow> avro_read s bs | Suc j \<Rightarrow> read_union ss j bs)"

text \<open>
  Modelled from the spec: decoding one record from a byte buffer with a parsed schema,
  as the module calls it: the value read from the start of the given bytes, or the
  decode error.
\<close>

definition avro_schemaless_reader :: "bytes \<Rightarrow> avro_schema \<Rightarrow> error + avro_value" where
  "avro_schemaless_reader b schema =
     (case avro_read schema b of
        None \<Rightarrow> Inl (AvroReadError ''cannot read'')
      | Some (v, rest) \<Rightarrow> Inr v)"

section \<open>Stand-ins for the other libraries\<close>

text \<open>
  A JSON loader that knows three schema texts and a broker client that hands out a
  fixed list of messages: they give the remaining library parameters concrete values
  where a statement has to be run on an input.
\<close>

text \<open>The schema texts the stand-in for \<^verbatim>\<open>json.load\<close> understands.\<close>

definition alert_schema :: avro_schema where
  "alert_schema =
     SRecord [(''candid'', SLong),
              (''cutout'', SUnion [SNull, SLong]),
              (''candidate'', SRecord [(''jd'', SLong), (''fid'', SUnion [SNull, SLong])])]"

definition stub_json_load :: "string \<Rightarrow> error + avro_schema" where
  "stub_json_load s =
     (if s = ''long'' then Inr SLong
      else if s = ''empty record'' then Inr (SRecord [])
      else if s = ''alert record'' then Inr alert_schema
      else Inl (JSONDecodeError s))"

definition stub_poll :: "real \<Rightarrow> message list \<Rightarrow> (error + message option) \<times> message list" where
  "stub_poll t q = (case q of [] \<Rightarrow> (Inr None, []) | m # ms \<Rightarrow> (Inr (Some m), ms))"

definition stub_consume ::
  "int \<Rightarrow> real \<Rightarrow> message list \<Rightarrow> (error + message list) \<times> message list" where
  "stub_consume n t q =
     (if n < 0 then (Inl (KafkaException ''num_messages''), q)
      else (Inr (take (nat n) q), drop (nat n) q))"

definition stub_env ::
  "message list \<Rightarrow> (avro_schema, avro_schema, avro_value, message list) env" where
  "stub_env pending =
     \<lparr>package_root = ''/opt/fink_client'',
      json_load = stub_json_load,
      parse_schema = Inr,
      schemaless_reader = avro_schemaless_reader,
      client_new = (\<lambda>cfg. Inr []),
      client_subscribe = (\<lambda>topics c. Inr (filter (\<lambda>m. msg_topic m \<in> set topics) pending)),
      client_poll = stub_poll,
      client_consume = stub_consume,
      client_close = (\<lambda>c. [])\<rparr>"

definition stub_world :: world where
  "stub_world =
     \<lparr>files = [''/opt/fink_client/schemas/fink_alert_schema.avsc'' \<mapsto> ''alert record'',
               ''/home/user/long.avsc'' \<mapsto> ''long''],
      writable = (\<lambda>p. True),
      remote = (\<lambda>url. Raises Timeout),
      trace = []\<rparr>"

definition stub_message :: "kafka_error option \<Rightarrow> int \<Rightarrow> bytes \<Rightarrow> message" where
  "stub_message err off v =
     \<lparr>msg_error = err, msg_topic = ''fink_alerts'', msg_partition = 2, msg_offset = off,
      msg_key = Some [107, 49], msg_value = v, msg_id = 140\<rparr>"

definition stub_consumer ::
  "avro_schema \<Rightarrow> message list \<Rightarrow> (avro_schema, message list) alert_consumer" where
  "stub_consumer schema pending =
     \<lparr>self_topics = [''fink_alerts''],
      self_kafka_config = [''group.id'' \<mapsto> ''g1''],
      self_parsed_schema = schema,
      self_consumer = pending\<rparr>"


section \<open>The connection configuration\<close>

lemma join_fink_servers:
  "join '','' fink_servers = ''localhost:9093,localhost:9094,localhost:9095''"
  by (simp add: fink_servers_def)

lemma get_kafka_config_Some:
  assumes "config ''group_id'' = Some g"
  shows "get_kafka_config config =
     Inr ((case (config ''username'', config ''password'') of
        (Some username, Some password) \<Rightarrow>
          [''security.protocol'' \<mapsto> ''sasl_plaintext'',
           ''sasl.mechanism'' \<mapsto> ''SCRAM-SHA-512'',
           ''sasl.username'' \<mapsto> username,
           ''sasl.password'' \<mapsto> password]
      | _ \<Rightarrow> Map.empty)
       (''group.id'' \<mapsto> g,
        ''auto.offset.reset'' \<mapsto> ''earliest'',
        ''bootstrap.servers'' \<mapsto>
           (case config ''bootstrap.servers'' of
              Some servers \<Rightarrow> servers
            | None \<Rightarrow> ''localhost:9093,localhost:9094,localhost:9095'')))"
  using assms
  by (cases "config ''bootstrap.servers''")
     (simp_all add: get_kafka_config_def default_config_def join_fink_servers Let_def
        del: fun_upd_apply)

lemma get_kafka_config_None:
  assumes "config ''group_id'' = None"
  shows "get_kafka_config config = Inl (KeyError ''group_id'')"
  using assms by (simp add: get_kafka_config_def)

lemma get_kafka_config_Inr_group_id:
  assumes "get_kafka_config config = Inr cfg"
  shows "\<exists>g. config ''group_id'' = Some g"
  using assms by (cases "config ''group_id''") (simp_all add: get_kafka_config_def)

text \<open>
  Claim C3. For an option mapping that has \<^verbatim>\<open>group_id\<close>, the configuration is built, it
  has \<^verbatim>\<open>group.id\<close> set to the given value and \<^verbatim>\<open>auto.offset.reset\<close> set to
  \<^verbatim>\<open>earliest\<close>; it has the four SASL entries, with the given credentials, when
  \<^verbatim>\<open>username\<close> and \<^verbatim>\<open>password\<close> are both present and none of the four otherwise; and
  \<^verbatim>\<open>bootstrap.servers\<close> is the given value or else the three local addresses joined by
  commas.
\<close>

theorem kafka_config_fields:
  assumes "config ''group_id'' = Some g"
  shows "\<exists>cfg. get_kafka_config config = Inr cfg
     \<and> cfg ''group.id'' = Some g
     \<and> cfg ''auto.offset.reset'' = Some ''earliest''
     \<and> (if config ''username'' \<noteq> None \<and> config ''password'' \<noteq> None
        then cfg ''security.protocol'' = Some ''sasl_plaintext''
           \<and> cfg ''sasl.mechanism'' = Some ''SCRAM-SHA-512''
           \<and> cfg ''sasl.username'' = config ''username''
           \<and> cfg ''sasl.password'' = config ''password''
        else cfg ''security.protocol'' = None
           \<and> cfg ''sasl.mechanism'' = None
           \<and> cfg ''sasl.username'' = None
           \<and> cfg ''sasl.password'' = None)
     \<and> cfg ''bootstrap.servers'' =
         Some (case config ''bootstrap.servers'' of
                 Some servers \<Rightarrow> servers
               | None \<Rightarrow> ''localhost:9093,localhost:9094,localhost:9095'')"
  using assms get_kafka_config_Some [of config g]
  by (cases "config ''username''"; cases "config ''password''") simp_all

theorem kafka_config_fields_witness:
  "[''group_id'' \<mapsto> ''g1'', ''username'' \<mapsto> ''alice'', ''password'' \<mapsto> ''s3cret''] ''group_id''
     = Some ''g1''
   \<and> (\<exists>cfg. get_kafka_config
          [''group_id'' \<mapsto> ''g1'', ''username'' \<mapsto> ''alice'', ''password'' \<mapsto> ''s3cret'']
        = Inr cfg
      \<and> cfg ''group.id'' = Some ''g1''
      \<and> cfg ''auto.offset.reset'' = Some ''earliest''
      \<and> cfg ''security.protocol'' = Some ''sasl_plaintext''
      \<and> cfg ''sasl.mechanism'' = Some ''SCRAM-SHA-512''
      \<and> cfg ''sasl.username'' = Some ''alice''
      \<and> cfg ''sasl.password'' = Some ''s3cret''
      \<and> cfg ''bootstrap.servers'' = Some ''localhost:9093,localhost:9094,localhost:9095'')
   \<and> [''group_id'' \<mapsto> ''g2'', ''username'' \<mapsto> ''alice'',
       ''bootstrap.servers'' \<mapsto> ''kafka.example.org:9092''] ''group_id''
     = Some ''g2''
   \<and> (\<exists>cfg. get_kafka_config
          [''group_id'' \<mapsto> ''g2'', ''username'' \<mapsto> ''alice'',
           ''bootstrap.servers'' \<mapsto> ''kafka.example.org:9092'']
        = Inr cfg
      \<and> cfg ''group.id'' = Some ''g2''
      \<and> cfg ''auto.offset.reset'' = Some ''earliest''
      \<and> cfg ''security.protocol'' = None
      \<and> cfg ''sasl.mechanism'' = None
      \<and> cfg ''sasl.username'' = None
      \<and> cfg ''sasl.password'' = None
      \<and> cfg ''bootstrap.servers'' = Some ''kafka.example.org:9092'')"
  using kafka_config_fields
    [of "[''group_id'' \<mapsto> ''g1'', ''username'' \<mapsto> ''alice'', ''password'' \<mapsto> ''s3cret'']" "''g1''"]
    kafka_config_fields
    [of "[''group_id'' \<mapsto> ''g2'', ''username'' \<mapsto> ''alice'',
          ''bootstrap.servers'' \<mapsto> ''kafka.example.org:9092'']" "''g2''"]
  by simp

text \<open>
  Claim C10. The keys of a built configuration are \<^verbatim>\<open>group.id\<close>,
  \<^verbatim>\<open>auto.offset.reset\<close>, \<^verbatim>\<open>bootstrap.servers\<close> and, when both credentials are present,
  the four SASL keys: nothing else of the input mapping gets through, and
  \<^verbatim>\<open>auto.offset.reset\<close> is \<^verbatim>\<open>earliest\<close> whatever the input says.
\<close>

theorem kafka_config_keys:
  assumes "get_kafka_config config = Inr cfg"
  shows "dom cfg =
     {''group.id'', ''auto.offset.reset'', ''bootstrap.servers''} \<union>
     (if config ''username'' \<noteq> None \<and> config ''password'' \<noteq> None
      then {''security.protocol'', ''sasl.mechanism'', ''sasl.username'', ''sasl.password''}
      else {})
     \<and> cfg ''auto.offset.reset'' = Some ''earliest''"
proof -
  obtain g where g: "config ''group_id'' = Some g"
    using assms get_kafka_config_Inr_group_id by blast
  have cfg: "cfg = (case (config ''username'', config ''password'') of
        (Some username, Some password) \<Rightarrow>
          [''security.protocol'' \<mapsto> ''sasl_plaintext'',
           ''sasl.mechanism'' \<mapsto> ''SCRAM-SHA-512'',
           ''sasl.username'' \<mapsto> username,
           ''sasl.password'' \<mapsto> password]
      | _ \<Rightarrow> Map.empty)
       (''group.id'' \<mapsto> g,
        ''auto.offset.reset'' \<mapsto> ''earliest'',
        ''bootstrap.servers'' \<mapsto>
           (case config ''bootstrap.servers'' of
              Some servers \<Rightarrow> servers
            | None \<Rightarrow> ''localhost:9093,localhost:9094,localhost:9095''))"
    using assms g get_kafka_config_Some [of config g] by simp
  have keys: "dom cfg =
     {''group.id'', ''auto.offset.reset'', ''bootstrap.servers''} \<union>
     (if config ''username'' \<noteq> None \<and> config ''password'' \<noteq> None
      then {''security.protocol'', ''sasl.mechanism'', ''sasl.username'', ''sasl.password''}
      else {})"
    unfolding cfg
    by (cases "config ''username''"; cases "config ''password''")
       (simp_all add: insert_commute del: fun_upd_apply)
  have reset: "cfg ''auto.offset.reset'' = Some ''earliest''"
    unfolding cfg by simp
  from keys reset show ?thesis by simp
qed

theorem kafka_config_keys_witness:
  "get_kafka_config
     [''group_id'' \<mapsto> ''g1'', ''auto.offset.reset'' \<mapsto> ''latest'',
      ''session.timeout.ms'' \<mapsto> ''6000'']
   = Inr [''group.id'' \<mapsto> ''g1'', ''auto.offset.reset'' \<mapsto> ''earliest'',
          ''bootstrap.servers'' \<mapsto> ''localhost:9093,localhost:9094,localhost:9095'']
   \<and> dom [''group.id'' \<mapsto> ''g1'', ''auto.offset.reset'' \<mapsto> ''earliest'',
          ''bootstrap.servers'' \<mapsto> ''localhost:9093,localhost:9094,localhost:9095'']
     = {''group.id'', ''auto.offset.reset'', ''bootstrap.servers''}
   \<and> [''group.id'' \<mapsto> ''g1'', ''auto.offset.reset'' \<mapsto> ''earliest'',
          ''bootstrap.servers'' \<mapsto> ''localhost:9093,localhost:9094,localhost:9095'']
        ''session.timeout.ms'' = None"
proof -
  have built: "get_kafka_config
     [''group_id'' \<mapsto> ''g1'', ''auto.offset.reset'' \<mapsto> ''latest'',
      ''session.timeout.ms'' \<mapsto> ''6000'']
   = Inr [''group.id'' \<mapsto> ''g1'', ''auto.offset.reset'' \<mapsto> ''earliest'',
          ''bootstrap.servers'' \<mapsto> ''localhost:9093,localhost:9094,localhost:9095'']"
    by (simp add: get_kafka_config_def default_config_def join_fink_servers)
  show ?thesis
    using built kafka_config_keys [OF built] by simp
qed

section \<open>Construction\<close>

text \<open>
  Claim C5. Without \<^verbatim>\<open>group_id\<close> the configuration builder raises
  \<^verbatim>\<open>KeyError('group_id')\<close> and construction ends there: the world is returned as it was,
  so nothing was printed, fetched, written, read or connected, and no default stands in
  for the missing value.
\<close>

theorem init_missing_group_id:
  assumes "config ''group_id'' = None"
  shows "get_kafka_config config = Inl (KeyError ''group_id'')
     \<and> init env topics config schema w = (Inl (KeyError ''group_id''), w)"
  using assms by (simp add: init_def get_kafka_config_None)

theorem init_missing_group_id_witness:
  "[''username'' \<mapsto> ''alice'', ''password'' \<mapsto> ''s3cret''] ''group_id'' = None
   \<and> get_kafka_config [''username'' \<mapsto> ''alice'', ''password'' \<mapsto> ''s3cret'']
       = Inl (KeyError ''group_id'')
   \<and> init (stub_env []) [''fink_alerts'']
        [''username'' \<mapsto> ''alice'', ''password'' \<mapsto> ''s3cret''] None stub_world
       = (Inl (KeyError ''group_id''), stub_world)"
  using init_missing_group_id
    [of "[''username'' \<mapsto> ''alice'', ''password'' \<mapsto> ''s3cret'']"
        "stub_env []" "[''fink_alerts'']" None stub_world]
  by simp

section \<open>Schema resolution\<close>

lemma last_split_schema_url:
  "last (split_str CHR ''/'' schema_url) = ''distribution_schema.avsc''"
  by (simp add: schema_url_def)

lemma choose_explicit: "choose_schema_path env (Some p) w = (Inr p, w)"
  by (simp add: choose_schema_path_def)

lemma choose_fetched:
  assumes "remote w schema_url = Returns r"
    and "writable w (schemas_file env ''distribution_schema.avsc'')"
  shows "choose_schema_path env None w =
     (Inr (schemas_file env ''distribution_schema.avsc''),
      w\<lparr>files := (files w)(schemas_file env ''distribution_schema.avsc'' \<mapsto> resp_text r),
        trace := trace w @
          [Print ''Getting schema from fink servers...'',
           HttpGet schema_url 1,
           FileWrite (schemas_file env ''distribution_schema.avsc'') (resp_text r)]\<rparr>)"
  using assms
  by (simp add: choose_schema_path_def Let_def requests_get_def write_file_def print_def
        emit_def last_split_schema_url)

lemma choose_not_written:
  assumes "remote w schema_url = Returns r"
    and "\<not> writable w (schemas_file env ''distribution_schema.avsc'')"
  shows "choose_schema_path env None w =
     (Inl (OSError (schemas_file env ''distribution_schema.avsc'')),
      w\<lparr>trace := trace w @
          [Print ''Getting schema from fink servers...'',
           HttpGet schema_url 1,
           FileWrite (schemas_file env ''distribution_schema.avsc'') (resp_text r)]\<rparr>)"
  using assms
  by (simp add: choose_schema_path_def Let_def requests_get_def write_file_def print_def
        emit_def last_split_schema_url)

lemma choose_fallback:
  assumes "remote w schema_url = Raises exc"
  shows "choose_schema_path env None w =
     (Inr (schemas_file env ''fink_alert_schema.avsc''),
      w\<lparr>trace := trace w @
          [Print ''Getting schema from fink servers...'',
           HttpGet schema_url 1,
           Print (fallback_notice (schemas_file env ''fink_alert_schema.avsc''))]\<rparr>)"
  using assms
  by (simp add: choose_schema_path_def Let_def requests_get_def print_def emit_def)

lemma load_chosen:
  assumes "choose_schema_path env schema_path w = (Inr p, w1)"
  shows "get_alert_schema env schema_path w =
     (case files w1 p of
        None \<Rightarrow> Inl (OSError p)
      | Some content \<Rightarrow>
          (case json_load env content of
             Inl e \<Rightarrow> Inl e
           | Inr schema \<Rightarrow> parse_schema env schema),
      w1\<lparr>trace := trace w1 @ [FileRead p]\<rparr>)"
  using assms
  by (simp add: get_alert_schema_def read_file_def emit_def split: option.splits sum.splits)

lemma fallback_on_request_exception:
  assumes "remote w schema_url = Raises exc"
  shows "get_alert_schema env None w =
     (case files w (schemas_file env ''fink_alert_schema.avsc'') of
        None \<Rightarrow> Inl (OSError (schemas_file env ''fink_alert_schema.avsc''))
      | Some content \<Rightarrow>
          (case json_load env content of
             Inl e \<Rightarrow> Inl e
           | Inr schema \<Rightarrow> parse_schema env schema),
      w\<lparr>trace := trace w @
          [Print ''Getting schema from fink servers...'',
           HttpGet schema_url 1,
           Print (fallback_notice (schemas_file env ''fink_alert_schema.avsc'')),
           FileRead (schemas_file env ''fink_alert_schema.avsc'')]\<rparr>)"
  using load_chosen [OF choose_fallback [OF assms], of env] by simp

lemma fetched_then_parsed:
  assumes "remote w schema_url = Returns r"
    and "writable w (schemas_file env ''distribution_schema.avsc'')"
  shows "get_alert_schema env None w =
     (case json_load env (resp_text r) of
        Inl e \<Rightarrow> Inl e
      | Inr schema \<Rightarrow> parse_schema env schema,
      w\<lparr>files := (files w)(schemas_file env ''distribution_schema.avsc'' \<mapsto> resp_text r),
        trace := trace w @
          [Print ''Getting schema from fink servers...'',
           HttpGet schema_url 1,
           FileWrite (schemas_file env ''distribution_schema.avsc'') (resp_text r),
           FileRead (schemas_file env ''distribution_schema.avsc'')]\<rparr>)"
  using load_chosen [OF choose_fetched [OF assms]] by simp

text \<open>
  Claim C4. With an explicit path \<open>P\<close> the result is the parse of \<open>P\<close>'s content as it
  is in the file system; an unreadable file, a JSON error and a schema error each come
  back as the error; the only call to the outside is the read of \<open>P\<close> (no HTTP request,
  no write), and the files are unchanged.
\<close>

theorem explicit_schema_path:
  "get_alert_schema env (Some P) w =
     (case files w P of
        None \<Rightarrow> Inl (OSError P)
      | Some content \<Rightarrow>
          (case json_load env content of
             Inl e \<Rightarrow> Inl e
           | Inr schema \<Rightarrow> parse_schema env schema),
      w\<lparr>trace := trace w @ [FileRead P]\<rparr>)"
  using load_chosen [OF choose_explicit] .

theorem explicit_schema_path_witness:
  "get_alert_schema (stub_env []) (Some ''/home/user/long.avsc'') stub_world =
     (Inr SLong, stub_world\<lparr>trace := [FileRead ''/home/user/long.avsc'']\<rparr>)
   \<and> get_alert_schema (stub_env []) (Some ''/home/user/missing.avsc'') stub_world =
     (Inl (OSError ''/home/user/missing.avsc''),
      stub_world\<lparr>trace := [FileRead ''/home/user/missing.avsc'']\<rparr>)"
  using explicit_schema_path [of "stub_env []" "''/home/user/long.avsc''" stub_world]
    explicit_schema_path [of "stub_env []" "''/home/user/missing.avsc''" stub_world]
  by (simp add: stub_world_def stub_env_def stub_json_load_def)

text \<open>
  Claim C1, on a remote source that answers \<^verbatim>\<open>404\<close> with the body
  \<^verbatim>\<open>404: Not Found\<close>: no exception is raised by the request, so the body is written
  over the cache file and handed to the JSON parser. The bundled default schema is not
  read and no fallback notice is printed.
\<close>

theorem http_error_status:
  "get_alert_schema env None
     (w\<lparr>writable := \<lambda>p. True,
        remote := \<lambda>url. Returns \<lparr>status_code = 404, resp_text = ''404: Not Found''\<rparr>\<rparr>) =
     (case json_load env ''404: Not Found'' of
        Inl e \<Rightarrow> Inl e
      | Inr schema \<Rightarrow> parse_schema env schema,
      w\<lparr>files := (files w)(schemas_file env ''distribution_schema.avsc'' \<mapsto> ''404: Not Found''),
        writable := \<lambda>p. True,
        remote := \<lambda>url. Returns \<lparr>status_code = 404, resp_text = ''404: Not Found''\<rparr>,
        trace := trace w @
          [Print ''Getting schema from fink servers...'',
           HttpGet schema_url 1,
           FileWrite (schemas_file env ''distribution_schema.avsc'') ''404: Not Found'',
           FileRead (schemas_file env ''distribution_schema.avsc'')]\<rparr>)"
proof -
  let ?w = "w\<lparr>writable := \<lambda>p. True,
        remote := \<lambda>url. Returns \<lparr>status_code = 404, resp_text = ''404: Not Found''\<rparr>\<rparr>"
  have "remote ?w schema_url = Returns \<lparr>status_code = 404, resp_text = ''404: Not Found''\<rparr>"
    and "writable ?w (schemas_file env ''distribution_schema.avsc'')"
    by simp_all
  from load_chosen [OF choose_fetched [OF this]]
  show ?thesis by simp
qed

section \<open>Decoding\<close>

lemma decode_rewinds:
  "decode_avro_alert env \<lparr>buffer = b, pos = p\<rparr> schema = schemaless_reader env b schema"
  by (simp add: decode_avro_alert_def seek_def remaining_def)

lemma decode_BytesIO:
  "decode_avro_alert env (BytesIO b) schema = schemaless_reader env b schema"
  by (simp add: BytesIO_def decode_rewinds)

lemma unzigzag_zigzag: "unzigzag (zigzag n) = n"
proof (cases "0 \<le> n")
  case True
  then show ?thesis by (simp add: zigzag_def unzigzag_def even_nat_iff nat_mult_distrib)
next
  case False
  then obtain k where k: "n = - int (Suc k)"
    by (metis add.inverse_inverse int_cases not_le of_nat_0_le_iff linorder_not_less)
  have z: "zigzag n = 2 * k + 1"
    using k by (simp add: zigzag_def)
  show ?thesis
    unfolding z using k by (simp add: unzigzag_def)
qed

lemma unat_byte: "u < 256 \<Longrightarrow> unat (of_nat u :: 8 word) = u"
  by (simp add: unat_of_nat)

lemma read_varint_varint: "read_varint (varint u @ rest) = Some (u, rest)"
proof (induction u rule: varint.induct)
  case (1 u)
  show ?case
  proof (cases "u < 128")
    case True
    then show ?thesis
      by (subst varint.simps) (simp add: unat_byte)
  next
    case False
    have hi: "unat (of_nat (128 + u mod 128) :: 8 word) = 128 + u mod 128"
      by (rule unat_byte) simp
    from False "1.IH" have ih: "read_varint (varint (u div 128) @ rest) = Some (u div 128, rest)"
      by simp
    show ?thesis
      using False hi ih
      by (subst varint.simps) simp
  qed
qed

lemma write_read:
  "avro_write S v = Some b \<Longrightarrow> avro_read S (b @ rest) = Some (v, rest)"
  "write_fields fs kvs = Some b \<Longrightarrow> read_fields fs (b @ rest) = Some (kvs, rest)"
  "write_union ss i v = Some b \<Longrightarrow>
     \<exists>k b'. b = varint (zigzag (int (i + k))) @ b' \<and> read_union ss k (b' @ rest) = Some (v, rest)"
proof (induction S v and fs kvs and ss i v arbitrary: b rest and b rest and b rest
       rule: avro_write_write_fields_write_union.induct)
  case (1 v)
  then show ?case by (cases v) simp_all
next
  case (2 v)
  then show ?case by (cases v) (auto simp add: read_varint_varint unzigzag_zigzag)
next
  case (3 fs v)
  then show ?case by (cases v) simp_all
next
  case (4 ss v)
  from "4.prems" have "write_union ss 0 v = Some b" by simp
  from "4.IH" [OF this, of rest] obtain k b' where
    b: "b = varint (zigzag (int k)) @ b'"
    and r: "read_union ss k (b' @ rest) = Some (v, rest)"
    by auto
  show ?case
    unfolding b using r by (simp add: read_varint_varint unzigzag_zigzag)
next
  case (5 kvs)
  then show ?case by (cases kvs) simp_all
next
  case (6 f fs kvs)
  from "6.prems" obtain kv kvs' b1 b2 where
    kvs: "kvs = kv # kvs'" and name: "fst kv = fst f"
    and w1: "avro_write (snd f) (snd kv) = Some b1"
    and w2: "write_fields fs kvs' = Some b2"
    and b: "b = b1 @ b2"
    by (cases kvs) (auto split: if_splits option.splits)
  have r1: "avro_read (snd f) (b1 @ b2 @ rest) = Some (snd kv, b2 @ rest)"
    using "6.IH"(1) [OF kvs name w1] .
  have r2: "read_fields fs (b2 @ rest) = Some (kvs', rest)"
    using "6.IH"(2) [OF kvs name w1 w2] .
  show ?case
    unfolding b kvs using r1 r2 name by (cases kv) simp
next
  case (7 i v)
  then show ?case by simp
next
  case (8 s ss i v)
  show ?case
  proof (cases "avro_write s v")
    case (Some b0)
    with "8.prems" have b: "b = varint (zigzag (int i)) @ b0" by simp
    have "avro_read s (b0 @ rest) = Some (v, rest)"
      using "8.IH"(1) [OF Some] .
    then have "b = varint (zigzag (int (i + 0))) @ b0
        \<and> read_union (s # ss) 0 (b0 @ rest) = Some (v, rest)"
      using b by simp
    then show ?thesis by blast
  next
    case None
    with "8.prems" have "write_union ss (Suc i) v = Some b" by simp
    from "8.IH"(2) [OF None this, of rest] obtain k b' where
      b: "b = varint (zigzag (int (Suc i + k))) @ b'"
      and r: "read_union ss k (b' @ rest) = Some (v, rest)"
      by auto
    have "b = varint (zigzag (int (i + Suc k))) @ b'
        \<and> read_union (s # ss) (Suc k) (b' @ rest) = Some (v, rest)"
      using b r by simp
    then show ?thesis by blast
  qed
qed

lemma conforms_written:
  "conforms S v \<Longrightarrow> avro_write S v \<noteq> None"
  "conforms_fields fs kvs \<Longrightarrow> write_fields fs kvs \<noteq> None"
  "conforms_any ss v \<Longrightarrow> (\<forall>i. write_union ss i v \<noteq> None)"
proof (induction S v and fs kvs and ss v rule: conforms_conforms_fields_conforms_any.induct)
  case (1 v)
  then show ?case by (cases v) simp_all
next
  case (2 v)
  then show ?case by (cases v) simp_all
next
  case (3 fs v)
  then show ?case by (cases v) simp_all
next
  case (4 ss v)
  then show ?case by simp
next
  case (5 kvs)
  then show ?case by (cases kvs) simp_all
next
  case (6 f fs kvs)
  then show ?case by (cases kvs) (auto split: if_splits)
next
  case (7 v)
  then show ?case by simp
next
  case (8 s ss v)
  then show ?case by (auto split: if_splits option.splits)
qed

text \<open>
  Claim C9. For every schema \<open>S\<close> and every record \<open>R\<close> of the type \<open>S\<close> describes (the
  empty record, a record with records inside, a record whose optional fields are null
  among them), the writer encodes \<open>R\<close>, and the module's decoder, handed a stream that
  holds those bytes and stands at any position, returns \<open>R\<close>: it rewinds the stream and
  the reader gives back what the writer was given.
\<close>

theorem decode_round_trip:
  assumes "conforms S R"
  shows "\<exists>b. avro_write S R = Some b
     \<and> decode_avro_alert (env\<lparr>schemaless_reader := avro_schemaless_reader\<rparr>)
         \<lparr>buffer = b, pos = p\<rparr> S = Inr R"
proof -
  from conforms_written(1) [OF assms] obtain b where written: "avro_write S R = Some b"
    by blast
  from write_read(1) [OF written, of "[]"] have "avro_read S b = Some (R, [])"
    by simp
  then have "decode_avro_alert (env\<lparr>schemaless_reader := avro_schemaless_reader\<rparr>)
         \<lparr>buffer = b, pos = p\<rparr> S = Inr R"
    by (simp add: decode_rewinds avro_schemaless_reader_def)
  with written show ?thesis by blast
qed

theorem decode_round_trip_witness:
  "conforms (SRecord []) (VRecord [])
   \<and> avro_write (SRecord []) (VRecord []) = Some []
   \<and> decode_avro_alert ((stub_env [])\<lparr>schemaless_reader := avro_schemaless_reader\<rparr>)
       \<lparr>buffer = [], pos = 0\<rparr> (SRecord [])
     = Inr (VRecord [])
   \<and> conforms alert_schema
       (VRecord [(''candid'', VLong 1000), (''cutout'', VNull),
                 (''candidate'', VRecord [(''jd'', VLong (- 5)), (''fid'', VNull)])])
   \<and> avro_write alert_schema
       (VRecord [(''candid'', VLong 1000), (''cutout'', VNull),
                 (''candidate'', VRecord [(''jd'', VLong (- 5)), (''fid'', VNull)])])
     = Some [208, 15, 0, 9, 0]
   \<and> decode_avro_alert ((stub_env [])\<lparr>schemaless_reader := avro_schemaless_reader\<rparr>)
       \<lparr>buffer = [208, 15, 0, 9, 0], pos = 3\<rparr> alert_schema
     = Inr (VRecord [(''candid'', VLong 1000), (''cutout'', VNull),
                     (''candidate'', VRecord [(''jd'', VLong (- 5)), (''fid'', VNull)])])"
proof -
  have empty: "conforms (SRecord []) (VRecord [])"
    by simp
  have empty_bytes: "avro_write (SRecord []) (VRecord []) = Some []"
    by simp
  have alert: "conforms alert_schema
       (VRecord [(''candid'', VLong 1000), (''cutout'', VNull),
                 (''candidate'', VRecord [(''jd'', VLong (- 5)), (''fid'', VNull)])])"
    by (simp add: alert_schema_def)
  have alert_bytes: "avro_write alert_schema
       (VRecord [(''candid'', VLong 1000), (''cutout'', VNull),
                 (''candidate'', VRecord [(''jd'', VLong (- 5)), (''fid'', VNull)])])
     = Some [208, 15, 0, 9, 0]"
    by (simp add: alert_schema_def zigzag_def varint.simps)
  show ?thesis
    using empty empty_bytes alert alert_bytes
      decode_round_trip [OF empty, of "stub_env []" 0]
      decode_round_trip [OF alert, of "stub_env []" 3]
    by simp
qed

section \<open>\<^verbatim>\<open>poll\<close>\<close>

lemma poll_result:
  "fst (poll env self timeout) =
     (case fst (client_poll env timeout (self_consumer self)) of
        Inl e \<Rightarrow> Inl e
      | Inr None \<Rightarrow> Inr (None, None)
      | Inr (Some msg) \<Rightarrow>
          (case msg_error msg of
             Some err \<Rightarrow> Inl (AlertError (error_message msg))
           | None \<Rightarrow>
               (case decode_avro_alert env (BytesIO (msg_value msg)) (self_parsed_schema self) of
                  Inl e \<Rightarrow> Inl e
                | Inr alert \<Rightarrow> Inr (Some (msg_topic msg), Some alert))))"
  by (cases "client_poll env timeout (self_consumer self)")
     (simp add: poll_def split: sum.splits option.splits)

lemma poll_keeps_schema:
  "self_parsed_schema (snd (poll env self timeout)) = self_parsed_schema self"
  by (cases "client_poll env timeout (self_consumer self)")
     (simp add: poll_def split: sum.splits option.splits)

text \<open>
  Claim C6. For every timeout, when the broker client returns no message, \<^verbatim>\<open>poll\<close>
  returns the pair \<^verbatim>\<open>(None, None)\<close> and raises nothing.
\<close>

theorem poll_no_message:
  assumes "fst (client_poll env timeout (self_consumer self)) = Inr None"
  shows "fst (poll env self timeout) = Inr (None, None)"
  using assms by (simp add: poll_result)

theorem poll_no_message_witness:
  "fst (client_poll (stub_env []) (- 1) (self_consumer (stub_consumer SLong []))) = Inr None
   \<and> fst (poll (stub_env []) (stub_consumer SLong []) (- 1)) = Inr (None, None)"
proof -
  have quiet: "fst (client_poll (stub_env []) (- 1) (self_consumer (stub_consumer SLong [])))
      = Inr None"
    by (simp add: stub_env_def stub_consumer_def stub_poll_def)
  show ?thesis
    using quiet poll_no_message [OF quiet] by simp
qed

lemma poll_broker_error:
  assumes "fst (client_poll env timeout (self_consumer self)) = Inr (Some msg)"
    and "msg_error msg = Some err"
  shows "fst (poll env self timeout) = Inl (AlertError (error_message msg))"
  using assms by (simp add: poll_result)

lemma error_message_ignores_key:
  "error_message (msg\<lparr>msg_key := k\<rparr>) = error_message msg"
  by (simp add: error_message_def str_bound_method_def)

lemma hex_140: "hex_nat 140 = ''8c''"
  by (simp add: digit_char_def)

text \<open>
  Claim C2, on a message with a broker error, topic \<^verbatim>\<open>fink_alerts\<close>, partition 2,
  offset 42 and any key: \<^verbatim>\<open>poll\<close> raises \<^verbatim>\<open>AlertError\<close> without decoding, and the text
  has the topic, the partition and the offset, but where the key should be it has the text of the method
  \<^verbatim>\<open>msg.key\<close> itself, the same for every key.
\<close>

theorem poll_error_text:
  "fst (poll
     (env\<lparr>client_poll := \<lambda>t c.
        (Inr (Some \<lparr>msg_error = Some (KafkaError (- 191) ''Broker: No more messages''),
                    msg_topic = ''fink_alerts'', msg_partition = 2, msg_offset = 42,
                    msg_key = key, msg_value = v, msg_id = 140\<rparr>), c)\<rparr>)
     self timeout) =
   Inl (AlertError
     (''Error: <built-in method error of cimpl.Message object at 0x8c>'' @ [CHR 0x0A] @
      ''topic: fink_alerts[2] at offset: 42 with key: '' @
      ''<built-in method key of cimpl.Message object at 0x8c>''))"
  by (simp add: poll_result error_message_def str_bound_method_def str_int_def hex_140
        digit_char_def)

section \<open>\<^verbatim>\<open>consume\<close>\<close>

lemma consume_result:
  "fst (consume env self n t) =
     (case fst (client_consume env n t (self_consumer self)) of
        Inl e \<Rightarrow> Inl e
      | Inr msg_list \<Rightarrow> consume_loop env (self_parsed_schema self) msg_list [])"
  by (cases "client_consume env n t (self_consumer self)")
     (simp add: consume_def split: sum.splits)

lemma consume_keeps_schema:
  "self_parsed_schema (snd (consume env self n t)) = self_parsed_schema self"
  by (cases "client_consume env n t (self_consumer self)")
     (simp add: consume_def split: sum.splits)

lemma consume_loop_returns:
  assumes "consume_loop env S msgs acc = Inr alerts"
  shows "\<exists>new. alerts = acc @ new
     \<and> list_all2 (\<lambda>m a. fst a = msg_topic m
          \<and> decode_avro_alert env (BytesIO (msg_value m)) S = Inr (snd a)) msgs new"
  using assms
proof (induction msgs arbitrary: acc)
  case Nil
  then show ?case by simp
next
  case (Cons m ms)
  from Cons.prems obtain alert where
    dec: "decode_avro_alert env (BytesIO (msg_value m)) S = Inr alert"
    and rest: "consume_loop env S ms (acc @ [(msg_topic m, alert)]) = Inr alerts"
    by (auto split: sum.splits)
  from Cons.IH [OF rest] obtain new where
    new: "alerts = (acc @ [(msg_topic m, alert)]) @ new"
      "list_all2 (\<lambda>m a. fst a = msg_topic m
          \<and> decode_avro_alert env (BytesIO (msg_value m)) S = Inr (snd a)) ms new"
    by blast
  have "alerts = acc @ ((msg_topic m, alert) # new)"
    using new(1) by simp
  moreover have "list_all2 (\<lambda>m a. fst a = msg_topic m
          \<and> decode_avro_alert env (BytesIO (msg_value m)) S = Inr (snd a))
        (m # ms) ((msg_topic m, alert) # new)"
    using dec new(2) by simp
  ultimately show ?case by blast
qed

lemma consume_loop_total:
  assumes "\<forall>m\<in>set msgs. \<exists>a. decode_avro_alert env (BytesIO (msg_value m)) S = Inr a"
  shows "\<exists>alerts. consume_loop env S msgs acc = Inr alerts"
  using assms by (induction msgs arbitrary: acc) auto

lemma consume_loop_raises:
  assumes "consume_loop env S msgs acc = Inl e"
  shows "\<exists>m\<in>set msgs. decode_avro_alert env (BytesIO (msg_value m)) S = Inl e"
  using assms by (induction msgs arbitrary: acc) (auto split: sum.splits)

lemma consume_loop_blind:
  assumes "schemaless_reader env' = schemaless_reader env"
  shows "consume_loop env' S (map (\<lambda>m. m\<lparr>msg_error := f m\<rparr>) msgs) acc =
         consume_loop env S msgs acc"
  using assms
  by (induction msgs arbitrary: acc) (simp_all add: decode_BytesIO split: sum.splits)

text \<open>
  Claim C7. When the broker client delivers the messages \<open>msgs\<close>, at most \<open>n\<close> of them:
  \<^verbatim>\<open>consume\<close> returns if every payload decodes; what it returns has at most \<open>n\<close> pairs,
  one per message in delivery order, each the message's topic and its decoded payload;
  the only exception it raises of its own is a payload's decode error; its result is the
  same whatever the messages' error fields are; and \<^verbatim>\<open>poll\<close>, handed any of these
  messages with an error set, raises \<^verbatim>\<open>AlertError\<close> instead.
\<close>

theorem consume_pairs:
  assumes "fst (client_consume env n t (self_consumer self)) = Inr msgs"
    and "int (length msgs) \<le> n"
  shows "((\<forall>m\<in>set msgs. \<exists>a.
            decode_avro_alert env (BytesIO (msg_value m)) (self_parsed_schema self) = Inr a)
          \<longrightarrow> (\<exists>alerts. fst (consume env self n t) = Inr alerts))
     \<and> (\<forall>alerts. fst (consume env self n t) = Inr alerts \<longrightarrow>
          int (length alerts) \<le> n
          \<and> list_all2 (\<lambda>m a. fst a = msg_topic m
               \<and> decode_avro_alert env (BytesIO (msg_value m)) (self_parsed_schema self)
                   = Inr (snd a)) msgs alerts)
     \<and> (\<forall>e. fst (consume env self n t) = Inl e \<longrightarrow>
          (\<exists>m\<in>set msgs.
             decode_avro_alert env (BytesIO (msg_value m)) (self_parsed_schema self) = Inl e))
     \<and> (\<forall>f. fst (consume
                  (env\<lparr>client_consume := \<lambda>n t c. (Inr (map (\<lambda>m. m\<lparr>msg_error := f m\<rparr>) msgs), c)\<rparr>)
                  self n t)
            = fst (consume env self n t))
     \<and> (\<forall>m\<in>set msgs. \<forall>err. msg_error m = Some err \<longrightarrow>
          fst (poll (env\<lparr>client_poll := \<lambda>t c. (Inr (Some m), c)\<rparr>) self t)
            = Inl (AlertError (error_message m)))"
proof -
  let ?S = "self_parsed_schema self"
  have run: "fst (consume env self n t) = consume_loop env ?S msgs []"
    using assms(1) by (simp add: consume_result)
  have total: "(\<forall>m\<in>set msgs. \<exists>a.
            decode_avro_alert env (BytesIO (msg_value m)) ?S = Inr a)
          \<longrightarrow> (\<exists>alerts. fst (consume env self n t) = Inr alerts)"
    unfolding run using consume_loop_total [of msgs env ?S "[]"] by blast
  have pairs: "\<forall>alerts. fst (consume env self n t) = Inr alerts \<longrightarrow>
          int (length alerts) \<le> n
          \<and> list_all2 (\<lambda>m a. fst a = msg_topic m
               \<and> decode_avro_alert env (BytesIO (msg_value m)) ?S = Inr (snd a)) msgs alerts"
  proof (intro allI impI)
    fix alerts
    assume "fst (consume env self n t) = Inr alerts"
    then have "consume_loop env ?S msgs [] = Inr alerts"
      by (simp add: run)
    from consume_loop_returns [OF this]
    have all2: "list_all2 (\<lambda>m a. fst a = msg_topic m
               \<and> decode_avro_alert env (BytesIO (msg_value m)) ?S = Inr (snd a)) msgs alerts"
      by simp
    then have "length alerts = length msgs"
      by (simp add: list_all2_lengthD)
    with assms(2) all2
    show "int (length alerts) \<le> n
          \<and> list_all2 (\<lambda>m a. fst a = msg_topic m
               \<and> decode_avro_alert env (BytesIO (msg_value m)) ?S = Inr (snd a)) msgs alerts"
      by simp
  qed
  have raises: "\<forall>e. fst (consume env self n t) = Inl e \<longrightarrow>
          (\<exists>m\<in>set msgs. decode_avro_alert env (BytesIO (msg_value m)) ?S = Inl e)"
    unfolding run using consume_loop_raises [of env ?S msgs "[]"] by blast
  have blind: "\<forall>f. fst (consume
                  (env\<lparr>client_consume := \<lambda>n t c. (Inr (map (\<lambda>m. m\<lparr>msg_error := f m\<rparr>) msgs), c)\<rparr>)
                  self n t)
            = fst (consume env self n t)"
    unfolding run by (simp add: consume_result consume_loop_blind)
  have asym: "\<forall>m\<in>set msgs. \<forall>err. msg_error m = Some err \<longrightarrow>
          fst (poll (env\<lparr>client_poll := \<lambda>t c. (Inr (Some m), c)\<rparr>) self t)
            = Inl (AlertError (error_message m))"
    by (simp add: poll_result)
  from total pairs raises blind asym show ?thesis by blast
qed

theorem consume_pairs_witness:
  "fst (client_consume (stub_env []) 5 1
      (self_consumer (stub_consumer SLong
         [stub_message (Some (KafkaError (- 191) ''Broker: No more messages'')) 41 [10],
          stub_message None 42 [4]])))
     = Inr [stub_message (Some (KafkaError (- 191) ''Broker: No more messages'')) 41 [10],
            stub_message None 42 [4]]
   \<and> int (length [stub_message (Some (KafkaError (- 191) ''Broker: No more messages'')) 41 [10],
                   stub_message None 42 [4]]) \<le> 5
   \<and> fst (consume (stub_env [])
        (stub_consumer SLong
           [stub_message (Some (KafkaError (- 191) ''Broker: No more messages'')) 41 [10],
            stub_message None 42 [4]]) 5 1)
     = Inr [(''fink_alerts'', VLong 5), (''fink_alerts'', VLong 2)]
   \<and> fst (poll (stub_env [])
        (stub_consumer SLong
           [stub_message (Some (KafkaError (- 191) ''Broker: No more messages'')) 41 [10],
            stub_message None 42 [4]]) 1)
     = Inl (AlertError (error_message
          (stub_message (Some (KafkaError (- 191) ''Broker: No more messages'')) 41 [10])))"
proof -
  let ?m1 = "stub_message (Some (KafkaError (- 191) ''Broker: No more messages'')) 41 [10]"
  let ?m2 = "stub_message None 42 [4]"
  have delivered: "fst (client_consume (stub_env []) 5 1
      (self_consumer (stub_consumer SLong [?m1, ?m2]))) = Inr [?m1, ?m2]"
    by (simp add: stub_env_def stub_consumer_def stub_consume_def)
  have bound: "int (length [?m1, ?m2]) \<le> 5"
    by simp
  have polled: "fst (poll (stub_env []) (stub_consumer SLong [?m1, ?m2]) 1)
     = Inl (AlertError (error_message ?m1))"
    by (simp add: poll_result stub_env_def stub_consumer_def stub_poll_def stub_message_def)
  have dec1: "decode_avro_alert (stub_env []) (BytesIO (msg_value ?m1)) SLong = Inr (VLong 5)"
    by (simp add: decode_BytesIO stub_env_def stub_message_def avro_schemaless_reader_def unzigzag_def)
  have dec2: "decode_avro_alert (stub_env []) (BytesIO (msg_value ?m2)) SLong = Inr (VLong 2)"
    by (simp add: decode_BytesIO stub_env_def stub_message_def avro_schemaless_reader_def unzigzag_def)
  have consumed: "fst (consume (stub_env []) (stub_consumer SLong [?m1, ?m2]) 5 1)
     = Inr [(''fink_alerts'', VLong 5), (''fink_alerts'', VLong 2)]"
    using delivered dec1 dec2
    by (simp add: consume_result stub_consumer_def) (simp add: stub_message_def)
  show ?thesis
    using delivered bound consumed polled
      consume_pairs [OF delivered bound]
    by simp
qed

section \<open>The schema over the life of an instance\<close>

lemma close_keeps_schema:
  "self_parsed_schema (close env self) = self_parsed_schema self"
  by (simp add: close_def)

lemma happen_keeps:
  "self_parsed_schema (fst (happen env h sw)) = self_parsed_schema (fst sw)
     \<and> trace (snd (happen env h sw)) = trace (snd sw)"
  by (cases sw; cases h)
     (simp_all add: poll_keeps_schema consume_keeps_schema close_keeps_schema)

lemma lifetime_keeps:
  "self_parsed_schema (fst (lifetime env hs sw)) = self_parsed_schema (fst sw)
     \<and> trace (snd (lifetime env hs sw)) = trace (snd sw)"
proof (induction hs arbitrary: sw)
  case Nil
  show ?case by simp
next
  case (Cons h hs)
  show ?case
    using Cons.IH [of "happen env h sw"] happen_keeps [of env h sw] by simp
qed

lemma init_returns:
  assumes "init env topics config schema w = (Inr self, w')"
  shows "\<exists>kafka_config w1. get_kafka_config config = Inr kafka_config
     \<and> get_alert_schema env schema w = (Inr (self_parsed_schema self), w1)
     \<and> trace w' = trace w1 @ [ConsumerNew kafka_config, Subscribe topics]"
  using assms
  by (auto simp: init_def emit_def split: sum.splits prod.splits)

lemma schema_loaded_once:
  assumes "get_alert_schema env schema w = (Inr S, w1)"
  shows "schema_loads w1 = schema_loads w + 1 \<and> schema_fetches w1 \<le> schema_fetches w + 1"
proof (cases schema)
  case (Some P)
  with assms load_chosen [OF choose_explicit, of env P w]
  show ?thesis by (auto simp: schema_loads_def schema_fetches_def)
next
  case None
  show ?thesis
  proof (cases "remote w schema_url")
    case (Raises exc)
    with assms None load_chosen [OF choose_fallback [OF Raises], of env]
    show ?thesis by (auto simp: schema_loads_def schema_fetches_def)
  next
    case (Returns r)
    show ?thesis
    proof (cases "writable w (schemas_file env ''distribution_schema.avsc'')")
      case True
      with assms None load_chosen [OF choose_fetched [OF Returns True]]
      show ?thesis by (auto simp: schema_loads_def schema_fetches_def)
    next
      case False
      with assms None choose_not_written [OF Returns False]
      show ?thesis by (simp add: get_alert_schema_def)
    qed
  qed
qed

text \<open>
  Claim C8. After a successful construction the instance's schema is the one the single
  resolution at construction returned (one schema file read, at most one HTTP request);
  over any later sequence of method calls and changes of the remote source or of the
  files, the instance's schema stays that one, the module makes no further call to the
  outside, and every \<^verbatim>\<open>poll\<close> and \<^verbatim>\<open>consume\<close> decodes with it.
\<close>

theorem schema_resolved_once:
  assumes "init env topics config schema w = (Inr self, w')"
  shows "fst (get_alert_schema env schema w) = Inr (self_parsed_schema self)
     \<and> schema_loads w' = schema_loads w + 1
     \<and> schema_fetches w' \<le> schema_fetches w + 1
     \<and> (\<forall>hs. self_parsed_schema (fst (lifetime env hs (self, w'))) = self_parsed_schema self
           \<and> trace (snd (lifetime env hs (self, w'))) = trace w'
           \<and> (\<forall>t. fst (poll env (fst (lifetime env hs (self, w'))) t) =
                (case fst (client_poll env t (self_consumer (fst (lifetime env hs (self, w'))))) of
                   Inl e \<Rightarrow> Inl e
                 | Inr None \<Rightarrow> Inr (None, None)
                 | Inr (Some msg) \<Rightarrow>
                     (case msg_error msg of
                        Some err \<Rightarrow> Inl (AlertError (error_message msg))
                      | None \<Rightarrow>
                          (case schemaless_reader env (msg_value msg) (self_parsed_schema self) of
                             Inl e \<Rightarrow> Inl e
                           | Inr alert \<Rightarrow> Inr (Some (msg_topic msg), Some alert)))))
           \<and> (\<forall>n t. fst (consume env (fst (lifetime env hs (self, w'))) n t) =
                (case fst (client_consume env n t
                        (self_consumer (fst (lifetime env hs (self, w'))))) of
                   Inl e \<Rightarrow> Inl e
                 | Inr msg_list \<Rightarrow> consume_loop env (self_parsed_schema self) msg_list [])))"
proof -
  from init_returns [OF assms] obtain kafka_config w1 where
    resolved: "get_alert_schema env schema w = (Inr (self_parsed_schema self), w1)"
    and after: "trace w' = trace w1 @ [ConsumerNew kafka_config, Subscribe topics]"
    by blast
  have first: "fst (get_alert_schema env schema w) = Inr (self_parsed_schema self)"
    using resolved by simp
  have once: "schema_loads w' = schema_loads w + 1 \<and> schema_fetches w' \<le> schema_fetches w + 1"
    using schema_loaded_once [OF resolved] after
    by (simp add: schema_loads_def schema_fetches_def)
  have later: "\<forall>hs. self_parsed_schema (fst (lifetime env hs (self, w'))) = self_parsed_schema self
           \<and> trace (snd (lifetime env hs (self, w'))) = trace w'
           \<and> (\<forall>t. fst (poll env (fst (lifetime env hs (self, w'))) t) =
                (case fst (client_poll env t (self_consumer (fst (lifetime env hs (self, w'))))) of
                   Inl e \<Rightarrow> Inl e
                 | Inr None \<Rightarrow> Inr (None, None)
                 | Inr (Some msg) \<Rightarrow>
                     (case msg_error msg of
                        Some err \<Rightarrow> Inl (AlertError (error_message msg))
                      | None \<Rightarrow>
                          (case schemaless_reader env (msg_value msg) (self_parsed_schema self) of
                             Inl e \<Rightarrow> Inl e
                           | Inr alert \<Rightarrow> Inr (Some (msg_topic msg), Some alert)))))
           \<and> (\<forall>n t. fst (consume env (fst (lifetime env hs (self, w'))) n t) =
                (case fst (client_consume env n t
                        (self_consumer (fst (lifetime env hs (self, w'))))) of
                   Inl e \<Rightarrow> Inl e
                 | Inr msg_list \<Rightarrow> consume_loop env (self_parsed_schema self) msg_list []))"
  proof
    fix hs
    have keeps: "self_parsed_schema (fst (lifetime env hs (self, w'))) = self_parsed_schema self"
      and quiet: "trace (snd (lifetime env hs (self, w'))) = trace w'"
      using lifetime_keeps [of env hs "(self, w')"] by simp_all
    show "self_parsed_schema (fst (lifetime env hs (self, w'))) = self_parsed_schema self
           \<and> trace (snd (lifetime env hs (self, w'))) = trace w'
           \<and> (\<forall>t. fst (poll env (fst (lifetime env hs (self, w'))) t) =
                (case fst (client_poll env t (self_consumer (fst (lifetime env hs (self, w'))))) of
                   Inl e \<Rightarrow> Inl e
                 | Inr None \<Rightarrow> Inr (None, None)
                 | Inr (Some msg) \<Rightarrow>
                     (case msg_error msg of
                        Some err \<Rightarrow> Inl (AlertError (error_message msg))
                      | None \<Rightarrow>
                          (case schemaless_reader env (msg_value msg) (self_parsed_schema self) of
                             Inl e \<Rightarrow> Inl e
                           | Inr alert \<Rightarrow> Inr (Some (msg_topic msg), Some alert)))))
           \<and> (\<forall>n t. fst (consume env (fst (lifetime env hs (self, w'))) n t) =
                (case fst (client_consume env n t
                        (self_consumer (fst (lifetime env hs (self, w'))))) of
                   Inl e \<Rightarrow> Inl e
                 | Inr msg_list \<Rightarrow> consume_loop env (self_parsed_schema self) msg_list []))"
      unfolding poll_result consume_result decode_BytesIO keeps quiet by simp
  qed
  from first once later show ?thesis by blast
qed

lemma stub_world_fallback:
  "choose_schema_path (stub_env pending) None stub_world =
     (Inr ''/opt/fink_client/schemas/fink_alert_schema.avsc'',
      stub_world\<lparr>trace :=
        [Print ''Getting schema from fink servers...'',
         HttpGet schema_url 1,
         Print (fallback_notice ''/opt/fink_client/schemas/fink_alert_schema.avsc'')]\<rparr>)"
proof -
  have "remote stub_world schema_url = Raises Timeout"
    by (simp add: stub_world_def)
  from choose_fallback [OF this, of "stub_env pending"]
  show ?thesis by (simp add: schemas_file_def stub_env_def stub_world_def)
qed

lemma stub_world_schema:
  "get_alert_schema (stub_env pending) None stub_world =
     (Inr alert_schema,
      stub_world\<lparr>trace :=
        [Print ''Getting schema from fink servers...'',
         HttpGet schema_url 1,
         Print (fallback_notice ''/opt/fink_client/schemas/fink_alert_schema.avsc''),
         FileRead ''/opt/fink_client/schemas/fink_alert_schema.avsc'']\<rparr>)"
  using load_chosen [OF stub_world_fallback, of pending]
  by (simp add: stub_world_def stub_env_def stub_json_load_def)

lemma stub_init:
  "init (stub_env [stub_message None 42 [208, 15, 0, 9, 0]]) [''fink_alerts'']
      [''group_id'' \<mapsto> ''g1''] None stub_world =
     (Inr \<lparr>self_topics = [''fink_alerts''],
           self_kafka_config =
             [''group.id'' \<mapsto> ''g1'', ''auto.offset.reset'' \<mapsto> ''earliest'',
              ''bootstrap.servers'' \<mapsto> ''localhost:9093,localhost:9094,localhost:9095''],
           self_parsed_schema = alert_schema,
           self_consumer = [stub_message None 42 [208, 15, 0, 9, 0]]\<rparr>,
      stub_world\<lparr>trace :=
        [Print ''Getting schema from fink servers...'',
         HttpGet schema_url 1,
         Print (fallback_notice ''/opt/fink_client/schemas/fink_alert_schema.avsc''),
         FileRead ''/opt/fink_client/schemas/fink_alert_schema.avsc'',
         ConsumerNew
           [''group.id'' \<mapsto> ''g1'', ''auto.offset.reset'' \<mapsto> ''earliest'',
            ''bootstrap.servers'' \<mapsto> ''localhost:9093,localhost:9094,localhost:9095''],
         Subscribe [''fink_alerts'']]\<rparr>)"
proof -
  have cfg: "get_kafka_config [''group_id'' \<mapsto> ''g1''] =
     Inr [''group.id'' \<mapsto> ''g1'', ''auto.offset.reset'' \<mapsto> ''earliest'',
          ''bootstrap.servers'' \<mapsto> ''localhost:9093,localhost:9094,localhost:9095'']"
    by (simp add: get_kafka_config_def default_config_def join_fink_servers)
  show ?thesis
    unfolding init_def cfg stub_world_schema
    by (simp add: stub_env_def stub_message_def emit_def)
qed

theorem schema_resolved_once_witness:
  "init (stub_env [stub_message None 42 [208, 15, 0, 9, 0]]) [''fink_alerts'']
      [''group_id'' \<mapsto> ''g1''] None stub_world =
     (Inr \<lparr>self_topics = [''fink_alerts''],
           self_kafka_config =
             [''group.id'' \<mapsto> ''g1'', ''auto.offset.reset'' \<mapsto> ''earliest'',
              ''bootstrap.servers'' \<mapsto> ''localhost:9093,localhost:9094,localhost:9095''],
           self_parsed_schema = alert_schema,
           self_consumer = [stub_message None 42 [208, 15, 0, 9, 0]]\<rparr>,
      stub_world\<lparr>trace :=
        [Print ''Getting schema from fink servers...'',
         HttpGet schema_url 1,
         Print (fallback_notice ''/opt/fink_client/schemas/fink_alert_schema.avsc''),
         FileRead ''/opt/fink_client/schemas/fink_alert_schema.avsc'',
         ConsumerNew
           [''group.id'' \<mapsto> ''g1'', ''auto.offset.reset'' \<mapsto> ''earliest'',
            ''bootstrap.servers'' \<mapsto> ''localhost:9093,localhost:9094,localhost:9095''],
         Subscribe [''fink_alerts'']]\<rparr>)
   \<and> fst (get_alert_schema (stub_env [stub_message None 42 [208, 15, 0, 9, 0]]) None stub_world)
       = Inr alert_schema
   \<and> self_parsed_schema
       (fst (lifetime (stub_env [stub_message None 42 [208, 15, 0, 9, 0]])
          [RemoteChanges (\<lambda>url. Returns \<lparr>status_code = 200, resp_text = ''long''\<rparr>),
           FileChanges ''/opt/fink_client/schemas/fink_alert_schema.avsc'' ''long'',
           CallPoll 1, CallConsume 5 (- 1), CallClose]
          (\<lparr>self_topics = [''fink_alerts''],
            self_kafka_config =
              [''group.id'' \<mapsto> ''g1'', ''auto.offset.reset'' \<mapsto> ''earliest'',
               ''bootstrap.servers'' \<mapsto> ''localhost:9093,localhost:9094,localhost:9095''],
            self_parsed_schema = alert_schema,
            self_consumer = [stub_message None 42 [208, 15, 0, 9, 0]]\<rparr>,
           stub_world\<lparr>trace :=
             [Print ''Getting schema from fink servers...'',
              HttpGet schema_url 1,
              Print (fallback_notice ''/opt/fink_client/schemas/fink_alert_schema.avsc''),
              FileRead ''/opt/fink_client/schemas/fink_alert_schema.avsc'',
              ConsumerNew
                [''group.id'' \<mapsto> ''g1'', ''auto.offset.reset'' \<mapsto> ''earliest'',
                 ''bootstrap.servers'' \<mapsto> ''localhost:9093,localhost:9094,localhost:9095''],
              Subscribe [''fink_alerts'']]\<rparr>)))
       = alert_schema"
proof -
  note once = schema_resolved_once [OF stub_init]
  from once have resolved:
    "fst (get_alert_schema (stub_env [stub_message None 42 [208, 15, 0, 9, 0]]) None stub_world)
       = Inr alert_schema"
    by simp
  from once have kept:
    "(self_parsed_schema
       (fst (lifetime (stub_env [stub_message None 42 [208, 15, 0, 9, 0]])
          [RemoteChanges (\<lambda>url. Returns \<lparr>status_code = 200, resp_text = ''long''\<rparr>),
           FileChanges ''/opt/fink_client/schemas/fink_alert_schema.avsc'' ''long'',
           CallPoll 1, CallConsume 5 (- 1), CallClose]
          (\<lparr>self_topics = [''fink_alerts''],
            self_kafka_config =
              [''group.id'' \<mapsto> ''g1'', ''auto.offset.reset'' \<mapsto> ''earliest'',
               ''bootstrap.servers'' \<mapsto> ''localhost:9093,localhost:9094,localhost:9095''],
            self_parsed_schema = alert_schema,
            self_consumer = [stub_message None 42 [208, 15, 0, 9, 0]]\<rparr>,
           stub_world\<lparr>trace :=
             [Print ''Getting schema from fink servers...'',
              HttpGet schema_url 1,
              Print (fallback_notice ''/opt/fink_client/schemas/fink_alert_schema.avsc''),
              FileRead ''/opt/fink_client/schemas/fink_alert_schema.avsc'',
              ConsumerNew
                [''group.id'' \<mapsto> ''g1'', ''auto.offset.reset'' \<mapsto> ''earliest'',
                 ''bootstrap.servers'' \<mapsto> ''localhost:9093,localhost:9094,localhost:9095''],
              Subscribe [''fink_alerts'']]\<rparr>))))
       = self_parsed_schema
           \<lparr>self_topics = [''fink_alerts''],
            self_kafka_config =
              [''group.id'' \<mapsto> ''g1'', ''auto.offset.reset'' \<mapsto> ''earliest'',
               ''bootstrap.servers'' \<mapsto> ''localhost:9093,localhost:9094,localhost:9095''],
            self_parsed_schema = alert_schema,
            self_consumer = [stub_message None 42 [208, 15, 0, 9, 0]]\<rparr>"
    (is "?kept = _")
    by blast
  from kept have kept': "?kept = alert_schema"
    by simp
  from stub_init resolved kept' show ?thesis
    by (intro conjI)
qed

end
